theory Spec2Isabelle
  imports Main
begin

section \<open>Selective-prefetch schemas over an object source (models/base.py)\<close>

text \<open>
  The module defines two schema base classes, \<^verbatim>\<open>TortoiseSchema\<close> and
  \<^verbatim>\<open>TortoiseListSchema\<close>. Their class methods read the relation names
  \<^verbatim>\<open>fetch_fields\<close> from the class configuration, hand them to the object source
  (\<^verbatim>\<open>fetch_related\<close> on a record, \<^verbatim>\<open>prefetch_related\<close> on a request), await
  the result and pass it to the converter \<^verbatim>\<open>from_orm\<close>.

  The object source and the converter are libraries outside the module. They are
  parameters of the model: each is a function that returns a value or raises
  (\<open>Inl\<close> is the raised error), and the object source also changes its own store.
  Every call the module makes to them is written to a log together with its
  outcome, so that the number, the order and the arguments of the calls can be
  stated.
\<close>

subsection \<open>Data\<close>

text \<open>
  \<^verbatim>\<open>class Config: fetch_fields: Iterable[str]\<close>, next to the standard options of
  the validation library (\<^verbatim>\<open>orm_mode\<close> in the docstrings). The attribute may be
  absent from a class configuration: \<open>None\<close>.
\<close>

record config =
  orm_mode :: bool
  fetch_fields :: "string list option"

text \<open>
  The values the awaited calls resolve to: \<^verbatim>\<open>None\<close>, one record, or a list.
  Used for concrete object sources; the operations themselves work for every type of
  values.
\<close>

datatype 'r pyval = PyNone | Rec 'r | PyList "'r pyval list"

text \<open>
  The calls to the collaborators, as logged: the receiver or argument, the relation
  names where there are any, and what the call returned or raised.
  \<open>'q\<close> are the awaitables (requests and coroutines), \<open>'v\<close> the values, \<open>'c\<close> the schema
  classes, \<open>'e\<close> the errors, \<open>'t\<close> the schema instances.
\<close>

datatype ('q, 'v, 'c, 'e, 't) event =
    FetchRelated 'v "string list" "'e + 'q"
  | PrefetchRelated 'q "string list" "'e + 'q"
  | Await 'q "'e + 'v"
  | Iter 'v "'e + 'v list"
  | FromOrm 'c 'v "'e + 't"

text \<open>
  The collaborators. \<open>fetch_related m fs\<close> is the call \<^verbatim>\<open>model.fetch_related(*fs)\<close>
  and \<open>prefetch_related q fs\<close> the call \<^verbatim>\<open>queryset.prefetch_related(*fs)\<close>; both
  give something to await. \<open>await\<close> resolves it against the store. \<open>py_iter\<close> is the
  iteration of a \<^verbatim>\<open>for\<close> over a value, \<open>from_orm\<close> the converter of a schema class.
\<close>

record ('q, 'v, 'c, 'e, 't, 's) collaborators =
  fetch_related :: "'v \<Rightarrow> string list \<Rightarrow> 's \<Rightarrow> ('e + 'q) \<times> 's"
  prefetch_related :: "'q \<Rightarrow> string list \<Rightarrow> 's \<Rightarrow> ('e + 'q) \<times> 's"
  await :: "'q \<Rightarrow> 's \<Rightarrow> ('e + 'v) \<times> 's"
  py_iter :: "'v \<Rightarrow> 'e + 'v list"
  from_orm :: "'c \<Rightarrow> 'v \<Rightarrow> 'e + 't"

text \<open>
  The state a call runs in: the configuration attached to each schema class (class-level
  attributes), the store of the object source, and the log of collaborator calls.
\<close>

record ('q, 'v, 'c, 'e, 't, 's) world =
  configs :: "'c \<Rightarrow> config"
  store :: "'s"
  trace :: "('q, 'v, 'c, 'e, 't) event list"

subsection \<open>Calls to the collaborators\<close>

definition log :: "('q, 'v, 'c, 'e, 't) event \<Rightarrow> ('q, 'v, 'c, 'e, 't, 's) world
    \<Rightarrow> ('q, 'v, 'c, 'e, 't, 's) world" where
  "log ev w = w\<lparr>trace := trace w @ [ev]\<rparr>"

definition call_fetch_related :: "('q, 'v, 'c, 'e, 't, 's) collaborators \<Rightarrow> 'v \<Rightarrow> string list
    \<Rightarrow> ('q, 'v, 'c, 'e, 't, 's) world \<Rightarrow> ('e + 'q) \<times> ('q, 'v, 'c, 'e, 't, 's) world" where
  "call_fetch_related C m fs w =
     (case fetch_related C m fs (store w) of
        (r, s') \<Rightarrow> (r, log (FetchRelated m fs r) (w\<lparr>store := s'\<rparr>)))"

definition call_prefetch_related :: "('q, 'v, 'c, 'e, 't, 's) collaborators \<Rightarrow> 'q \<Rightarrow> string list
    \<Rightarrow> ('q, 'v, 'c, 'e, 't, 's) world \<Rightarrow> ('e + 'q) \<times> ('q, 'v, 'c, 'e, 't, 's) world" where
  "call_prefetch_related C q fs w =
     (case prefetch_related C q fs (store w) of
        (r, s') \<Rightarrow> (r, log (PrefetchRelated q fs r) (w\<lparr>store := s'\<rparr>)))"

definition call_await :: "('q, 'v, 'c, 'e, 't, 's) collaborators \<Rightarrow> 'q
    \<Rightarrow> ('q, 'v, 'c, 'e, 't, 's) world \<Rightarrow> ('e + 'v) \<times> ('q, 'v, 'c, 'e, 't, 's) world" where
  "call_await C a w =
     (case await C a (store w) of
        (r, s') \<Rightarrow> (r, log (Await a r) (w\<lparr>store := s'\<rparr>)))"

definition call_iter :: "('q, 'v, 'c, 'e, 't, 's) collaborators \<Rightarrow> 'v
    \<Rightarrow> ('q, 'v, 'c, 'e, 't, 's) world \<Rightarrow> ('e + 'v list) \<times> ('q, 'v, 'c, 'e, 't, 's) world" where
  "call_iter C v w = (py_iter C v, log (Iter v (py_iter C v)) w)"

definition call_from_orm :: "('q, 'v, 'c, 'e, 't, 's) collaborators \<Rightarrow> 'c \<Rightarrow> 'v
    \<Rightarrow> ('q, 'v, 'c, 'e, 't, 's) world \<Rightarrow> ('e + 't) \<times> ('q, 'v, 'c, 'e, 't, 's) world" where
  "call_from_orm C cls v w = (from_orm C cls v, log (FromOrm cls v (from_orm C cls v)) w)"

subsection \<open>TortoiseSchema\<close>

text \<open>
  \<^verbatim>\<open>return getattr(cls.__config__, "fetch_fields", [])\<close>
\<close>

definition get_prefetch_fields :: "('q, 'v, 'c, 'e, 't, 's) world \<Rightarrow> 'c \<Rightarrow> string list" where
  "get_prefetch_fields w cls =
     (case fetch_fields (configs w cls) of None \<Rightarrow> [] | Some fs \<Rightarrow> fs)"

text \<open>
  \<^verbatim>\<open>return cls.from_orm(await model.fetch_related(*cls.get_prefetch_fields()))\<close>
\<close>

definition from_tortoise :: "('q, 'v, 'c, 'e, 't, 's) collaborators \<Rightarrow> 'c \<Rightarrow> 'v
    \<Rightarrow> ('q, 'v, 'c, 'e, 't, 's) world \<Rightarrow> ('e + 't) \<times> ('q, 'v, 'c, 'e, 't, 's) world" where
  "from_tortoise C cls model w =
     (case call_fetch_related C model (get_prefetch_fields w cls) w of
        (Inl e, w1) \<Rightarrow> (Inl e, w1)
      | (Inr a, w1) \<Rightarrow>
          (case call_await C a w1 of
             (Inl e, w2) \<Rightarrow> (Inl e, w2)
           | (Inr v, w2) \<Rightarrow> call_from_orm C cls v w2))"

text \<open>
  The list comprehension \<^verbatim>\<open>[cls.from_orm(model) for model in ...]\<close>: the records are
  converted from left to right, and the first conversion that raises ends the loop.
\<close>

fun convert_each :: "('q, 'v, 'c, 'e, 't, 's) collaborators \<Rightarrow> 'c \<Rightarrow> 'v list
    \<Rightarrow> ('q, 'v, 'c, 'e, 't, 's) world \<Rightarrow> ('e + 't list) \<times> ('q, 'v, 'c, 'e, 't, 's) world" where
  "convert_each C cls [] w = (Inr [], w)"
| "convert_each C cls (m # ms) w =
     (case call_from_orm C cls m w of
        (Inl e, w1) \<Rightarrow> (Inl e, w1)
      | (Inr x, w1) \<Rightarrow>
          (case convert_each C cls ms w1 of
             (Inl e, w2) \<Rightarrow> (Inl e, w2)
           | (Inr xs, w2) \<Rightarrow> (Inr (x # xs), w2)))"

text \<open>
  \<^verbatim>\<open>return [cls.from_orm(model)
          for model in await queryset.prefetch_related(*cls.get_prefetch_fields())]\<close>
\<close>

definition from_queryset :: "('q, 'v, 'c, 'e, 't, 's) collaborators \<Rightarrow> 'c \<Rightarrow> 'q
    \<Rightarrow> ('q, 'v, 'c, 'e, 't, 's) world \<Rightarrow> ('e + 't list) \<times> ('q, 'v, 'c, 'e, 't, 's) world" where
  "from_queryset C cls queryset w =
     (case call_prefetch_related C queryset (get_prefetch_fields w cls) w of
        (Inl e, w1) \<Rightarrow> (Inl e, w1)
      | (Inr a, w1) \<Rightarrow>
          (case call_await C a w1 of
             (Inl e, w2) \<Rightarrow> (Inl e, w2)
           | (Inr v, w2) \<Rightarrow>
               (case call_iter C v w2 of
                  (Inl e, w3) \<Rightarrow> (Inl e, w3)
                | (Inr ms, w3) \<Rightarrow> convert_each C cls ms w3)))"

text \<open>
  \<^verbatim>\<open>return cls.from_orm(await queryset.prefetch_related(*cls.get_prefetch_fields()))\<close>
\<close>

definition from_queryset_single :: "('q, 'v, 'c, 'e, 't, 's) collaborators \<Rightarrow> 'c \<Rightarrow> 'q
    \<Rightarrow> ('q, 'v, 'c, 'e, 't, 's) world \<Rightarrow> ('e + 't) \<times> ('q, 'v, 'c, 'e, 't, 's) world" where
  "from_queryset_single C cls queryset w =
     (case call_prefetch_related C queryset (get_prefetch_fields w cls) w of
        (Inl e, w1) \<Rightarrow> (Inl e, w1)
      | (Inr a, w1) \<Rightarrow>
          (case call_await C a w1 of
             (Inl e, w2) \<Rightarrow> (Inl e, w2)
           | (Inr v, w2) \<Rightarrow> call_from_orm C cls v w2))"

subsection \<open>TortoiseListSchema\<close>

text \<open>
  The class has its own copy of the accessor, with the same body.
\<close>

definition list_get_prefetch_fields :: "('q, 'v, 'c, 'e, 't, 's) world \<Rightarrow> 'c \<Rightarrow> string list" where
  "list_get_prefetch_fields w cls =
     (case fetch_fields (configs w cls) of None \<Rightarrow> [] | Some fs \<Rightarrow> fs)"

text \<open>
  \<^verbatim>\<open>return cls.from_orm(await queryset.prefetch_related(*cls.get_prefetch_fields()))\<close>
\<close>

definition list_from_queryset :: "('q, 'v, 'c, 'e, 't, 's) collaborators \<Rightarrow> 'c \<Rightarrow> 'q
    \<Rightarrow> ('q, 'v, 'c, 'e, 't, 's) world \<Rightarrow> ('e + 't) \<times> ('q, 'v, 'c, 'e, 't, 's) world" where
  "list_from_queryset C cls queryset w =
     (case call_prefetch_related C queryset (list_get_prefetch_fields w cls) w of
        (Inl e, w1) \<Rightarrow> (Inl e, w1)
      | (Inr a, w1) \<Rightarrow>
          (case call_await C a w1 of
             (Inl e, w2) \<Rightarrow> (Inl e, w2)
           | (Inr v, w2) \<Rightarrow> call_from_orm C cls v w2))"

subsection \<open>Reading the log\<close>

text \<open>
  The calls a run of an operation added to the log: what the log holds after the run,
  without what it held before.
\<close>

definition new_events :: "('q, 'v, 'c, 'e, 't, 's) world \<Rightarrow> ('q, 'v, 'c, 'e, 't, 's) world
    \<Rightarrow> ('q, 'v, 'c, 'e, 't) event list" where
  "new_events w w' = drop (length (trace w)) (trace w')"

text \<open>
  The augmented fetches among the logged calls: the receiver (a record for
  \<^verbatim>\<open>fetch_related\<close>, a request for \<^verbatim>\<open>prefetch_related\<close>) and the relation names
  passed.
\<close>

fun fetch_calls :: "('q, 'v, 'c, 'e, 't) event list \<Rightarrow> (('v + 'q) \<times> string list) list" where
  "fetch_calls [] = []"
| "fetch_calls (FetchRelated m fs r # evs) = (Inl m, fs) # fetch_calls evs"
| "fetch_calls (PrefetchRelated q fs r # evs) = (Inr q, fs) # fetch_calls evs"
| "fetch_calls (ev # evs) = fetch_calls evs"

text \<open>The awaited requests, and the converter calls with their class and argument.\<close>

fun await_calls :: "('q, 'v, 'c, 'e, 't) event list \<Rightarrow> 'q list" where
  "await_calls [] = []"
| "await_calls (Await a r # evs) = a # await_calls evs"
| "await_calls (ev # evs) = await_calls evs"

text \<open>
  The awaitables that the fetch calls of the log returned: what there is to await after
  them. A fetch call that raised returned none.
\<close>

fun fetch_returned :: "('q, 'v, 'c, 'e, 't) event list \<Rightarrow> 'q list" where
  "fetch_returned [] = []"
| "fetch_returned (FetchRelated m fs (Inr a) # evs) = a # fetch_returned evs"
| "fetch_returned (PrefetchRelated q fs (Inr a) # evs) = a # fetch_returned evs"
| "fetch_returned (ev # evs) = fetch_returned evs"

fun orm_calls :: "('q, 'v, 'c, 'e, 't) event list \<Rightarrow> ('c \<times> 'v) list" where
  "orm_calls [] = []"
| "orm_calls (FromOrm cls v r # evs) = (cls, v) # orm_calls evs"
| "orm_calls (ev # evs) = orm_calls evs"

text \<open>The error a logged call raised, if it raised one.\<close>

definition err_of :: "'e + 'a \<Rightarrow> 'e option" where
  "err_of r = (case r of Inl e \<Rightarrow> Some e | Inr x \<Rightarrow> None)"

fun raised :: "('q, 'v, 'c, 'e, 't) event \<Rightarrow> 'e option" where
  "raised (FetchRelated m fs r) = err_of r"
| "raised (PrefetchRelated q fs r) = err_of r"
| "raised (Await a r) = err_of r"
| "raised (Iter v r) = err_of r"
| "raised (FromOrm cls v r) = err_of r"

text \<open>
  Transparent propagation, read off the calls of one run and its outcome: a run that
  returns a value made only calls that returned; a run that raises \<open>e\<close> made a last call
  that raised this very \<open>e\<close>, after calls that all returned.
\<close>

definition propagates :: "'e + 'a \<Rightarrow> ('q, 'v, 'c, 'e, 't) event list \<Rightarrow> bool" where
  "propagates r evs =
     (case r of
        Inr x \<Rightarrow> list_all (\<lambda>ev. raised ev = None) evs
      | Inl e \<Rightarrow> evs \<noteq> [] \<and> raised (last evs) = Some e
                 \<and> list_all (\<lambda>ev. raised ev = None) (butlast evs))"

text \<open>
  The conversions of a list comprehension without the world: the converter calls it
  logs, and what it returns.
\<close>

fun conv_events :: "('q, 'v, 'c, 'e, 't, 's) collaborators \<Rightarrow> 'c \<Rightarrow> 'v list
    \<Rightarrow> ('q, 'v, 'c, 'e, 't) event list" where
  "conv_events C cls [] = []"
| "conv_events C cls (m # ms) =
     FromOrm cls m (from_orm C cls m)
       # (case from_orm C cls m of Inl e \<Rightarrow> [] | Inr x \<Rightarrow> conv_events C cls ms)"

fun conv_result :: "('q, 'v, 'c, 'e, 't, 's) collaborators \<Rightarrow> 'c \<Rightarrow> 'v list \<Rightarrow> 'e + 't list" where
  "conv_result C cls [] = Inr []"
| "conv_result C cls (m # ms) =
     (case from_orm C cls m of
        Inl e \<Rightarrow> Inl e
      | Inr x \<Rightarrow> (case conv_result C cls ms of Inl e \<Rightarrow> Inl e | Inr xs \<Rightarrow> Inr (x # xs)))"

text \<open>
  The relation names a configuration asks for, as the set the specification speaks of:
  none when the attribute is absent.
\<close>

definition configured_relations :: "config \<Rightarrow> string set" where
  "configured_relations cfg = (case fetch_fields cfg of None \<Rightarrow> {} | Some fs \<Rightarrow> set fs)"

subsection \<open>A small object source\<close>

text \<open>
  A table of record ids behind three kinds of awaitable: the request for all records,
  the request for one record, and the coroutine that refreshes a record. Awaiting
  counts the executed queries in the store. The converter rejects \<^verbatim>\<open>None\<close> and
  the record 0, which stands for a record without a required field.
\<close>

datatype request = QueryAll "string list" | QueryGet nat "string list" | Refresh nat "string list"

definition table_source :: "nat list
    \<Rightarrow> (request, nat pyval, string, string, nat pyval, nat) collaborators" where
  "table_source rows =
     \<lparr> fetch_related = (\<lambda>m fs s.
         case m of Rec i \<Rightarrow> (Inr (Refresh i fs), s) | _ \<Rightarrow> (Inl ''AttributeError'', s)),
       prefetch_related = (\<lambda>q fs s.
         case q of
           QueryAll gs \<Rightarrow> (Inr (QueryAll (gs @ fs)), s)
         | QueryGet i gs \<Rightarrow> (Inr (QueryGet i (gs @ fs)), s)
         | Refresh i gs \<Rightarrow> (Inl ''AttributeError'', s)),
       await = (\<lambda>q s.
         case q of
           QueryAll gs \<Rightarrow> (Inr (PyList (map Rec rows)), Suc s)
         | QueryGet i gs \<Rightarrow>
             (if i \<in> set rows then (Inr (Rec i), Suc s) else (Inl ''DoesNotExist'', Suc s))
         | Refresh i gs \<Rightarrow> (Inr (Rec i), Suc s)),
       py_iter = (\<lambda>v. case v of PyList xs \<Rightarrow> Inr xs | _ \<Rightarrow> Inl ''TypeError''),
       from_orm = (\<lambda>cls v.
         case v of
           PyNone \<Rightarrow> Inl ''ValidationError''
         | Rec i \<Rightarrow> (if i = 0 then Inl ''ValidationError'' else Inr v)
         | PyList xs \<Rightarrow> Inr v) \<rparr>"

text \<open>
  The same table behind an object source whose refresh works on the record in place:
  the coroutine of \<^verbatim>\<open>fetch_related\<close> fills the relations of the record it was
  called on and resolves to \<^verbatim>\<open>None\<close>, as a method declared to return nothing does.
\<close>

definition inplace_source :: "nat list
    \<Rightarrow> (request, nat pyval, string, string, nat pyval, nat) collaborators" where
  "inplace_source rows =
     (table_source rows)
       \<lparr> await := (\<lambda>q s.
           case q of
             Refresh i gs \<Rightarrow> (Inr PyNone, Suc s)
           | _ \<Rightarrow> await (table_source rows) q s) \<rparr>"

definition shop_world :: "(request, nat pyval, string, string, nat pyval, nat) world" where
  "shop_world =
     \<lparr> configs = (\<lambda>cls.
         if cls = ''Order'' then \<lparr>orm_mode = True, fetch_fields = Some [''customer'']\<rparr>
         else if cls = ''UserList'' then \<lparr>orm_mode = True, fetch_fields = Some [''a'', ''a__b'']\<rparr>
         else \<lparr>orm_mode = True, fetch_fields = None\<rparr>),
       store = 0,
       trace = [] \<rparr>"

section \<open>Properties of the runs\<close>

subsection \<open>The list comprehension and the log\<close>

text \<open>
  A run of the comprehension returns \<open>conv_result\<close>, appends \<open>conv_events\<close> to the log
  and leaves the rest of the world alone.
\<close>

lemma convert_each_run:
  "convert_each C cls ms w = (conv_result C cls ms, w\<lparr>trace := trace w @ conv_events C cls ms\<rparr>)"
proof (induction ms arbitrary: w)
  case Nil
  show ?case by simp
next
  case (Cons m ms)
  show ?case
    by (cases "from_orm C cls m"; cases "conv_result C cls ms")
       (simp_all add: call_from_orm_def log_def Cons.IH)
qed

lemma new_events_append: "trace w' = trace w @ evs \<Longrightarrow> new_events w w' = evs"
  by (simp add: new_events_def)

lemma fetch_calls_append: "fetch_calls (xs @ ys) = fetch_calls xs @ fetch_calls ys"
  by (induction xs rule: fetch_calls.induct) simp_all

lemma orm_calls_append: "orm_calls (xs @ ys) = orm_calls xs @ orm_calls ys"
  by (induction xs rule: orm_calls.induct) simp_all

lemma await_calls_append: "await_calls (xs @ ys) = await_calls xs @ await_calls ys"
  by (induction xs rule: await_calls.induct) simp_all

lemma fetch_calls_conv: "fetch_calls (conv_events C cls ms) = []"
  by (induction ms) (simp_all split: sum.splits)

lemma await_calls_conv: "await_calls (conv_events C cls ms) = []"
  by (induction ms) (simp_all split: sum.splits)

lemma propagates_conv: "propagates (conv_result C cls ms) (conv_events C cls ms)"
proof (induction ms)
  case Nil
  show ?case by (simp add: propagates_def)
next
  case (Cons m ms)
  show ?case
  proof (cases "from_orm C cls m")
    case (Inl e)
    then show ?thesis by (simp add: propagates_def err_of_def)
  next
    case (Inr x)
    with Cons.IH show ?thesis
      by (cases "conv_result C cls ms") (auto simp: propagates_def err_of_def)
  qed
qed

lemma propagates_Cons:
  "raised ev = None \<Longrightarrow> propagates r evs \<Longrightarrow> propagates r (ev # evs)"
  by (cases r) (auto simp: propagates_def)

lemma conv_all_ok:
  "\<forall>m \<in> set ms. from_orm C cls m = Inr (f m) \<Longrightarrow>
   conv_result C cls ms = Inr (map f ms) \<and>
   conv_events C cls ms = map (\<lambda>m. FromOrm cls m (Inr (f m))) ms"
  by (induction ms) simp_all

lemma orm_calls_map: "orm_calls (map (\<lambda>m. FromOrm cls m (g m)) ms) = map (Pair cls) ms"
  by (induction ms) simp_all

subsection \<open>One run of each operation\<close>

lemmas call_defs = call_fetch_related_def call_prefetch_related_def call_await_def
  call_iter_def call_from_orm_def log_def

lemma from_tortoise_fetch_calls:
  "fetch_calls (new_events w (snd (from_tortoise C cls m w))) = [(Inl m, get_prefetch_fields w cls)]"
  by (simp add: from_tortoise_def call_defs new_events_def split: prod.splits sum.splits)

lemma from_queryset_single_fetch_calls:
  "fetch_calls (new_events w (snd (from_queryset_single C cls q w))) = [(Inr q, get_prefetch_fields w cls)]"
  by (simp add: from_queryset_single_def call_defs new_events_def split: prod.splits sum.splits)

lemma list_from_queryset_fetch_calls:
  "fetch_calls (new_events w (snd (list_from_queryset C cls q w))) = [(Inr q, list_get_prefetch_fields w cls)]"
  by (simp add: list_from_queryset_def call_defs new_events_def split: prod.splits sum.splits)

lemma from_queryset_fetch_calls:
  "fetch_calls (new_events w (snd (from_queryset C cls q w))) = [(Inr q, get_prefetch_fields w cls)]"
  by (simp add: from_queryset_def call_defs new_events_def convert_each_run fetch_calls_conv fetch_calls_append
      split: prod.splits sum.splits)

lemma from_tortoise_propagates:
  "propagates (fst (from_tortoise C cls m w)) (new_events w (snd (from_tortoise C cls m w)))"
  by (simp add: from_tortoise_def call_defs new_events_def propagates_def err_of_def split: prod.splits sum.splits)

lemma from_queryset_propagates:
  "propagates (fst (from_queryset C cls q w)) (new_events w (snd (from_queryset C cls q w)))"
  by (simp add: from_queryset_def call_defs new_events_def convert_each_run propagates_conv propagates_Cons err_of_def
      split: prod.splits sum.splits) (simp add: propagates_def err_of_def)

lemma from_queryset_single_propagates:
  "propagates (fst (from_queryset_single C cls q w)) (new_events w (snd (from_queryset_single C cls q w)))"
  by (simp add: from_queryset_single_def call_defs new_events_def propagates_def err_of_def
      split: prod.splits sum.splits)

lemma list_from_queryset_propagates:
  "propagates (fst (list_from_queryset C cls q w)) (new_events w (snd (list_from_queryset C cls q w)))"
  by (simp add: list_from_queryset_def call_defs new_events_def propagates_def err_of_def
      split: prod.splits sum.splits)

lemma from_tortoise_await_calls:
  "length (await_calls (new_events w (snd (from_tortoise C cls m w)))) \<le> 1"
  by (simp add: from_tortoise_def call_defs new_events_def split: prod.splits sum.splits)

lemma from_queryset_await_calls:
  "length (await_calls (new_events w (snd (from_queryset C cls q w)))) \<le> 1"
  by (simp add: from_queryset_def call_defs new_events_def convert_each_run await_calls_conv
      await_calls_append split: prod.splits sum.splits)

lemma from_queryset_single_await_calls:
  "length (await_calls (new_events w (snd (from_queryset_single C cls q w)))) \<le> 1"
  by (simp add: from_queryset_single_def call_defs new_events_def split: prod.splits sum.splits)

lemma list_from_queryset_await_calls:
  "length (await_calls (new_events w (snd (list_from_queryset C cls q w)))) \<le> 1"
  by (simp add: list_from_queryset_def call_defs new_events_def split: prod.splits sum.splits)


lemma from_tortoise_frame:
  "configs (snd (from_tortoise C cls m w)) = configs w"
  "from_tortoise C cls m (w\<lparr>trace := t\<rparr>) =
     (fst (from_tortoise C cls m w),
      (snd (from_tortoise C cls m w))\<lparr>trace := t @ new_events w (snd (from_tortoise C cls m w))\<rparr>)"
  by (simp_all add: from_tortoise_def get_prefetch_fields_def call_defs new_events_def
      split: prod.splits sum.splits)

lemma from_queryset_frame:
  "configs (snd (from_queryset C cls q w)) = configs w"
  "from_queryset C cls q (w\<lparr>trace := t\<rparr>) =
     (fst (from_queryset C cls q w),
      (snd (from_queryset C cls q w))\<lparr>trace := t @ new_events w (snd (from_queryset C cls q w))\<rparr>)"
  by (simp_all add: from_queryset_def get_prefetch_fields_def call_defs new_events_def convert_each_run
      split: prod.splits sum.splits)

lemma from_queryset_single_frame:
  "configs (snd (from_queryset_single C cls q w)) = configs w"
  "from_queryset_single C cls q (w\<lparr>trace := t\<rparr>) =
     (fst (from_queryset_single C cls q w),
      (snd (from_queryset_single C cls q w))\<lparr>trace := t @ new_events w (snd (from_queryset_single C cls q w))\<rparr>)"
  by (simp_all add: from_queryset_single_def get_prefetch_fields_def call_defs new_events_def
      split: prod.splits sum.splits)

lemma list_from_queryset_frame:
  "configs (snd (list_from_queryset C cls q w)) = configs w"
  "list_from_queryset C cls q (w\<lparr>trace := t\<rparr>) =
     (fst (list_from_queryset C cls q w),
      (snd (list_from_queryset C cls q w))\<lparr>trace := t @ new_events w (snd (list_from_queryset C cls q w))\<rparr>)"
  by (simp_all add: list_from_queryset_def list_get_prefetch_fields_def call_defs new_events_def
      split: prod.splits sum.splits)


lemma from_tortoise_run:
  assumes "fetch_related C m (get_prefetch_fields w cls) (store w) = (Inr a, s1)"
    and "await C a s1 = (Inr v, s2)"
  shows "from_tortoise C cls m w =
     (from_orm C cls v,
      w\<lparr>store := s2, trace := trace w @ [FetchRelated m (get_prefetch_fields w cls) (Inr a),
          Await a (Inr v), FromOrm cls v (from_orm C cls v)]\<rparr>)"
  using assms by (simp add: from_tortoise_def call_defs)

lemma from_queryset_single_run:
  assumes "prefetch_related C q (get_prefetch_fields w cls) (store w) = (Inr a, s1)"
    and "await C a s1 = (Inr v, s2)"
  shows "from_queryset_single C cls q w =
     (from_orm C cls v,
      w\<lparr>store := s2, trace := trace w @ [PrefetchRelated q (get_prefetch_fields w cls) (Inr a),
          Await a (Inr v), FromOrm cls v (from_orm C cls v)]\<rparr>)"
  using assms by (simp add: from_queryset_single_def call_defs)

lemma list_from_queryset_run:
  assumes "prefetch_related C q (list_get_prefetch_fields w cls) (store w) = (Inr a, s1)"
    and "await C a s1 = (Inr v, s2)"
  shows "list_from_queryset C cls q w =
     (from_orm C cls v,
      w\<lparr>store := s2, trace := trace w @ [PrefetchRelated q (list_get_prefetch_fields w cls) (Inr a),
          Await a (Inr v), FromOrm cls v (from_orm C cls v)]\<rparr>)"
  using assms by (simp add: list_from_queryset_def call_defs)

lemma from_queryset_run:
  assumes "prefetch_related C q (get_prefetch_fields w cls) (store w) = (Inr a, s1)"
    and "await C a s1 = (Inr v, s2)"
    and "py_iter C v = Inr ms"
  shows "from_queryset C cls q w =
     (conv_result C cls ms,
      w\<lparr>store := s2, trace := trace w @ [PrefetchRelated q (get_prefetch_fields w cls) (Inr a),
          Await a (Inr v), Iter v (Inr ms)] @ conv_events C cls ms\<rparr>)"
  using assms by (simp add: from_queryset_def call_defs convert_each_run)

lemma set_get_prefetch_fields:
  "set (get_prefetch_fields w cls) = configured_relations (configs w cls)"
  "set (list_get_prefetch_fields w cls) = configured_relations (configs w cls)"
  by (simp_all add: get_prefetch_fields_def list_get_prefetch_fields_def configured_relations_def
      split: option.splits)

lemma fetch_returned_append: "fetch_returned (xs @ ys) = fetch_returned xs @ fetch_returned ys"
  by (induction xs rule: fetch_returned.induct) simp_all

lemma fetch_returned_conv: "fetch_returned (conv_events C cls ms) = []"
  by (induction ms) (simp_all split: sum.splits)

lemma from_tortoise_awaits_returned:
  "await_calls (new_events w (snd (from_tortoise C cls m w)))
     = fetch_returned (new_events w (snd (from_tortoise C cls m w)))"
  by (simp add: from_tortoise_def call_defs new_events_def split: prod.splits sum.splits)

lemma from_queryset_awaits_returned:
  "await_calls (new_events w (snd (from_queryset C cls q w)))
     = fetch_returned (new_events w (snd (from_queryset C cls q w)))"
  by (simp add: from_queryset_def call_defs new_events_def convert_each_run
      await_calls_conv await_calls_append fetch_returned_conv fetch_returned_append
      split: prod.splits sum.splits)

lemma from_queryset_single_awaits_returned:
  "await_calls (new_events w (snd (from_queryset_single C cls q w)))
     = fetch_returned (new_events w (snd (from_queryset_single C cls q w)))"
  by (simp add: from_queryset_single_def call_defs new_events_def split: prod.splits sum.splits)

lemma list_from_queryset_awaits_returned:
  "await_calls (new_events w (snd (list_from_queryset C cls q w)))
     = fetch_returned (new_events w (snd (list_from_queryset C cls q w)))"
  by (simp add: list_from_queryset_def call_defs new_events_def split: prod.splits sum.splits)

lemma from_tortoise_issues:
  assumes "fetch_related C m (get_prefetch_fields w cls) (store w) = (Inr a, s1)"
  shows "await_calls (new_events w (snd (from_tortoise C cls m w))) = [a]"
    and "take 2 (new_events w (snd (from_tortoise C cls m w)))
      = [FetchRelated m (get_prefetch_fields w cls) (Inr a), Await a (fst (await C a s1))]"
    and "store (snd (from_tortoise C cls m w)) = snd (await C a s1)"
  using assms
  by (simp_all add: from_tortoise_def call_defs new_events_def split: prod.splits sum.splits)

lemma from_queryset_issues:
  assumes "prefetch_related C q (get_prefetch_fields w cls) (store w) = (Inr a, s1)"
  shows "await_calls (new_events w (snd (from_queryset C cls q w))) = [a]"
    and "take 2 (new_events w (snd (from_queryset C cls q w)))
      = [PrefetchRelated q (get_prefetch_fields w cls) (Inr a), Await a (fst (await C a s1))]"
    and "store (snd (from_queryset C cls q w)) = snd (await C a s1)"
  using assms
  by (simp_all add: from_queryset_def call_defs new_events_def convert_each_run
      await_calls_conv await_calls_append split: prod.splits sum.splits)

lemma from_queryset_single_issues:
  assumes "prefetch_related C q (get_prefetch_fields w cls) (store w) = (Inr a, s1)"
  shows "await_calls (new_events w (snd (from_queryset_single C cls q w))) = [a]"
    and "take 2 (new_events w (snd (from_queryset_single C cls q w)))
      = [PrefetchRelated q (get_prefetch_fields w cls) (Inr a), Await a (fst (await C a s1))]"
    and "store (snd (from_queryset_single C cls q w)) = snd (await C a s1)"
  using assms
  by (simp_all add: from_queryset_single_def call_defs new_events_def split: prod.splits sum.splits)

lemma list_from_queryset_issues:
  assumes "prefetch_related C q (list_get_prefetch_fields w cls) (store w) = (Inr a, s1)"
  shows "await_calls (new_events w (snd (list_from_queryset C cls q w))) = [a]"
    and "take 2 (new_events w (snd (list_from_queryset C cls q w)))
      = [PrefetchRelated q (list_get_prefetch_fields w cls) (Inr a), Await a (fst (await C a s1))]"
    and "store (snd (list_from_queryset C cls q w)) = snd (await C a s1)"
  using assms
  by (simp_all add: list_from_queryset_def call_defs new_events_def split: prod.splits sum.splits)

lemmas source_defs = table_source_def shop_world_def

lemmas eval_defs = from_tortoise_def from_queryset_def from_queryset_single_def
  list_from_queryset_def get_prefetch_fields_def list_get_prefetch_fields_def
  call_defs source_defs new_events_def

section \<open>The claims\<close>

subsection \<open>The conversion of a resolved record\<close>

text \<open>
  What \<^verbatim>\<open>from_tortoise\<close> does with \<^verbatim>\<open>fetch_fields = ["customer"]\<close> once the fetch
  resolves: one \<^verbatim>\<open>fetch_related\<close> call on the record with the relation
  \<^verbatim>\<open>customer\<close>, one await, and one converter call, whose argument is the value \<open>v\<close>
  that the awaited call resolved to, not the variable \<^verbatim>\<open>model\<close>.
\<close>

lemma from_tortoise_customer_calls:
  assumes "fetch_fields (configs w cls) = Some [''customer'']"
    and "fetch_related C m [''customer''] (store w) = (Inr a, s1)"
    and "await C a s1 = (Inr v, s2)"
  shows "new_events w (snd (from_tortoise C cls m w)) =
           [FetchRelated m [''customer''] (Inr a), Await a (Inr v), FromOrm cls v (from_orm C cls v)]
       \<and> fetch_calls (new_events w (snd (from_tortoise C cls m w))) = [(Inl m, [''customer''])]
       \<and> orm_calls (new_events w (snd (from_tortoise C cls m w))) = [(cls, v)]
       \<and> fst (from_tortoise C cls m w) = from_orm C cls v"
proof -
  have fs: "get_prefetch_fields w cls = [''customer'']"
    using assms(1) by (simp add: get_prefetch_fields_def)
  have run: "from_tortoise C cls m w =
     (from_orm C cls v,
      w\<lparr>store := s2, trace := trace w @ [FetchRelated m [''customer''] (Inr a),
          Await a (Inr v), FromOrm cls v (from_orm C cls v)]\<rparr>)"
    using from_tortoise_run [of C m w cls a s1 v s2] assms(2,3) by (simp add: fs)
  show ?thesis by (simp add: run new_events_def)
qed

text \<open>
  Claim C1: for a schema type configured with \<^verbatim>\<open>fetch_fields = ["customer"]\<close>,
  \<^verbatim>\<open>from_tortoise\<close> on a resolved record performs exactly one augmented fetch with the
  relation set \<open>{customer}\<close> on that record and exactly one converter call, whose
  argument is the refreshed record itself.

  The first half holds. The second does not hold for an object source that refreshes in
  place: on the record 2 of the table \<open>[1, 2, 3]\<close> the single fetch is made with
  \<open>[customer]\<close> on that record, the awaited coroutine resolves to \<^verbatim>\<open>None\<close>, and the
  single converter call receives \<^verbatim>\<open>None\<close> instead of the record, so the conversion
  raises.
\<close>

theorem from_tortoise_converts_awaited_none:
  "fetch_calls (new_events shop_world
       (snd (from_tortoise (inplace_source [1, 2, 3]) ''Order'' (Rec 2) shop_world)))
     = [(Inl (Rec 2), [''customer''])]
   \<and> orm_calls (new_events shop_world
       (snd (from_tortoise (inplace_source [1, 2, 3]) ''Order'' (Rec 2) shop_world)))
     = [(''Order'', PyNone)]
   \<and> fst (from_tortoise (inplace_source [1, 2, 3]) ''Order'' (Rec 2) shop_world)
     = Inl ''ValidationError''"
  by (simp add: eval_defs inplace_source_def)

subsection \<open>The relation names handed to the object source\<close>

text \<open>
  Claim C2: for every schema configuration, each conversion operation augments the fetch
  with exactly the configured relation names as a set. The relation names of the fetch
  calls of a run, as sets, are the one set \<open>configured_relations\<close> of the class: empty
  when the list is empty or absent, \<open>{a, a__b}\<close> for \<^verbatim>\<open>["a", "a__b"]\<close>, in any order.
  And the fetch that runs is the augmented one: when the call with the names \<open>fs\<close>
  returned a request, the log holds that one call, on the record or request given, with
  \<open>fs\<close>, and the one thing awaited is the request the call returned, not the original.
\<close>

theorem fetch_augmented_with_configured_relations:
  "map (\<lambda>c. set (snd c)) (fetch_calls (new_events w (snd (from_tortoise C cls m w))))
     = [configured_relations (configs w cls)]
   \<and> map (\<lambda>c. set (snd c)) (fetch_calls (new_events w (snd (from_queryset C cls q w))))
     = [configured_relations (configs w cls)]
   \<and> map (\<lambda>c. set (snd c)) (fetch_calls (new_events w (snd (from_queryset_single C cls q w))))
     = [configured_relations (configs w cls)]
   \<and> map (\<lambda>c. set (snd c)) (fetch_calls (new_events w (snd (list_from_queryset C cls q w))))
     = [configured_relations (configs w cls)]
   \<and> (get_prefetch_fields w cls = fs \<and> fetch_related C m fs (store w) = (Inr a, s1) \<longrightarrow>
        set fs = configured_relations (configs w cls)
        \<and> fetch_calls (new_events w (snd (from_tortoise C cls m w))) = [(Inl m, fs)]
        \<and> await_calls (new_events w (snd (from_tortoise C cls m w))) = [a])
   \<and> (get_prefetch_fields w cls = fs \<and> prefetch_related C q fs (store w) = (Inr b, s2) \<longrightarrow>
        set fs = configured_relations (configs w cls)
        \<and> fetch_calls (new_events w (snd (from_queryset C cls q w))) = [(Inr q, fs)]
        \<and> await_calls (new_events w (snd (from_queryset C cls q w))) = [b]
        \<and> fetch_calls (new_events w (snd (from_queryset_single C cls q w))) = [(Inr q, fs)]
        \<and> await_calls (new_events w (snd (from_queryset_single C cls q w))) = [b])
   \<and> (list_get_prefetch_fields w cls = fs \<and> prefetch_related C q fs (store w) = (Inr b, s2) \<longrightarrow>
        set fs = configured_relations (configs w cls)
        \<and> fetch_calls (new_events w (snd (list_from_queryset C cls q w))) = [(Inr q, fs)]
        \<and> await_calls (new_events w (snd (list_from_queryset C cls q w))) = [b])"
proof -
  have names: "map (\<lambda>c. set (snd c)) (fetch_calls (new_events w (snd (from_tortoise C cls m w))))
       = [configured_relations (configs w cls)]
     \<and> map (\<lambda>c. set (snd c)) (fetch_calls (new_events w (snd (from_queryset C cls q w))))
       = [configured_relations (configs w cls)]
     \<and> map (\<lambda>c. set (snd c)) (fetch_calls (new_events w (snd (from_queryset_single C cls q w))))
       = [configured_relations (configs w cls)]
     \<and> map (\<lambda>c. set (snd c)) (fetch_calls (new_events w (snd (list_from_queryset C cls q w))))
       = [configured_relations (configs w cls)]"
    by (simp add: from_tortoise_fetch_calls from_queryset_fetch_calls
        from_queryset_single_fetch_calls list_from_queryset_fetch_calls set_get_prefetch_fields)
  have tie1: "set fs = configured_relations (configs w cls)
      \<and> fetch_calls (new_events w (snd (from_tortoise C cls m w))) = [(Inl m, fs)]
      \<and> await_calls (new_events w (snd (from_tortoise C cls m w))) = [a]"
    if "get_prefetch_fields w cls = fs" and "fetch_related C m fs (store w) = (Inr a, s1)"
    using that from_tortoise_issues(1) [of C m w cls a s1]
    by (auto simp: from_tortoise_fetch_calls set_get_prefetch_fields)
  have tie2: "set fs = configured_relations (configs w cls)
      \<and> fetch_calls (new_events w (snd (from_queryset C cls q w))) = [(Inr q, fs)]
      \<and> await_calls (new_events w (snd (from_queryset C cls q w))) = [b]
      \<and> fetch_calls (new_events w (snd (from_queryset_single C cls q w))) = [(Inr q, fs)]
      \<and> await_calls (new_events w (snd (from_queryset_single C cls q w))) = [b]"
    if "get_prefetch_fields w cls = fs" and "prefetch_related C q fs (store w) = (Inr b, s2)"
    using that from_queryset_issues(1) [of C q w cls b s2]
      from_queryset_single_issues(1) [of C q w cls b s2]
    by (auto simp: from_queryset_fetch_calls from_queryset_single_fetch_calls
        set_get_prefetch_fields)
  have tie3: "set fs = configured_relations (configs w cls)
      \<and> fetch_calls (new_events w (snd (list_from_queryset C cls q w))) = [(Inr q, fs)]
      \<and> await_calls (new_events w (snd (list_from_queryset C cls q w))) = [b]"
    if "list_get_prefetch_fields w cls = fs" and "prefetch_related C q fs (store w) = (Inr b, s2)"
    using that list_from_queryset_issues(1) [of C q w cls b s2]
    by (auto simp: list_from_queryset_fetch_calls set_get_prefetch_fields)
  show ?thesis
    using names tie1 tie2 tie3 by blast
qed

theorem fetch_augmented_with_configured_relations_witness:
  "get_prefetch_fields shop_world ''UserList'' = [''a'', ''a__b'']
   \<and> list_get_prefetch_fields shop_world ''UserList'' = [''a'', ''a__b'']
   \<and> fetch_related (table_source [2, 3, 4]) (Rec 2) [''a'', ''a__b''] (store shop_world)
       = (Inr (Refresh 2 [''a'', ''a__b'']), 0)
   \<and> prefetch_related (table_source [2, 3, 4]) (QueryAll []) [''a'', ''a__b''] (store shop_world)
       = (Inr (QueryAll [''a'', ''a__b'']), 0)
   \<and> map (\<lambda>c. set (snd c)) (fetch_calls (new_events shop_world
       (snd (list_from_queryset (table_source [2, 3, 4]) ''UserList'' (QueryAll []) shop_world))))
     = [{''a'', ''a__b''}]
   \<and> map (\<lambda>c. set (snd c)) (fetch_calls (new_events shop_world
       (snd (from_queryset (table_source [2, 3, 4]) ''UserList'' (QueryAll []) shop_world))))
     = [{''a__b'', ''a''}]
   \<and> await_calls (new_events shop_world
       (snd (from_queryset (table_source [2, 3, 4]) ''UserList'' (QueryAll []) shop_world)))
     = [QueryAll [''a'', ''a__b'']]
   \<and> await_calls (new_events shop_world
       (snd (from_queryset_single (table_source [2, 3, 4]) ''UserList'' (QueryAll []) shop_world)))
     = [QueryAll [''a'', ''a__b'']]
   \<and> await_calls (new_events shop_world
       (snd (list_from_queryset (table_source [2, 3, 4]) ''UserList'' (QueryAll []) shop_world)))
     = [QueryAll [''a'', ''a__b'']]
   \<and> await_calls (new_events shop_world
       (snd (from_tortoise (table_source [2, 3, 4]) ''UserList'' (Rec 2) shop_world)))
     = [Refresh 2 [''a'', ''a__b'']]
   \<and> fetch_calls (new_events shop_world
       (snd (from_queryset (table_source [2, 3, 4]) ''Unconfigured'' (QueryAll []) shop_world)))
     = [(Inr (QueryAll []), [])]"
proof -
  have c: "configured_relations (configs shop_world ''UserList'') = {''a'', ''a__b''}"
    by (simp add: shop_world_def configured_relations_def)
  have e: "get_prefetch_fields shop_world ''Unconfigured'' = []"
    by (simp add: shop_world_def get_prefetch_fields_def)
  have g: "get_prefetch_fields shop_world ''UserList'' = [''a'', ''a__b'']"
    by (simp add: shop_world_def get_prefetch_fields_def)
  have l: "list_get_prefetch_fields shop_world ''UserList'' = [''a'', ''a__b'']"
    by (simp add: shop_world_def list_get_prefetch_fields_def)
  have f: "fetch_related (table_source [2, 3, 4]) (Rec 2) [''a'', ''a__b''] (store shop_world)
       = (Inr (Refresh 2 [''a'', ''a__b'']), 0)"
    by (simp add: source_defs)
  have p: "prefetch_related (table_source [2, 3, 4]) (QueryAll []) [''a'', ''a__b'']
       (store shop_world) = (Inr (QueryAll [''a'', ''a__b'']), 0)"
    by (simp add: source_defs)
  show ?thesis
    using fetch_augmented_with_configured_relations
      [where w = shop_world and C = "table_source [2, 3, 4]" and cls = "''UserList''"
         and m = "Rec 2" and q = "QueryAll []" and fs = "[''a'', ''a__b'']"
         and a = "Refresh 2 [''a'', ''a__b'']" and ?s1.0 = 0
         and b = "QueryAll [''a'', ''a__b'']" and ?s2.0 = 0]
      g l f p
    by (simp add: c e from_queryset_fetch_calls insert_commute)
qed

text \<open>
  Claim C3: \<^verbatim>\<open>get_prefetch_fields\<close> on a schema type whose configuration does not define
  \<^verbatim>\<open>fetch_fields\<close> returns the empty sequence, in both classes. The accessor is a
  function of the class configuration alone: it takes no store and returns none, it has
  no error result, and the store and the log do not change what it returns.
\<close>

theorem get_prefetch_fields_unconfigured:
  "(fetch_fields (configs w cls) = None \<longrightarrow>
      get_prefetch_fields w cls = [] \<and> list_get_prefetch_fields w cls = [])
   \<and> get_prefetch_fields (w\<lparr>store := s, trace := t\<rparr>) cls = get_prefetch_fields w cls
   \<and> list_get_prefetch_fields (w\<lparr>store := s, trace := t\<rparr>) cls = list_get_prefetch_fields w cls"
  by (simp add: get_prefetch_fields_def list_get_prefetch_fields_def)

theorem get_prefetch_fields_unconfigured_witness:
  "fetch_fields (configs shop_world ''Unconfigured'') = None
   \<and> get_prefetch_fields shop_world ''Unconfigured'' = []
   \<and> list_get_prefetch_fields shop_world ''Unconfigured'' = []"
proof -
  have h: "fetch_fields (configs shop_world ''Unconfigured'') = None"
    by (simp add: shop_world_def)
  show ?thesis
    using get_prefetch_fields_unconfigured [of shop_world "''Unconfigured''"] h by simp
qed

subsection \<open>The results of the conversions\<close>

text \<open>
  Claim C4: \<^verbatim>\<open>TortoiseSchema.from_queryset\<close> preserves the order of the fetched
  records. When the awaited request iterates to the records \<open>rs\<close> and the converter
  accepts each of them, the result is the list of their conversions in the order of
  \<open>rs\<close>, and the converter was called once on each record, in that order.
\<close>

theorem from_queryset_preserves_order:
  assumes "prefetch_related C q (get_prefetch_fields w cls) (store w) = (Inr a, s1)"
    and "await C a s1 = (Inr v, s2)"
    and "py_iter C v = Inr rs"
    and "\<forall>r \<in> set rs. from_orm C cls r = Inr (f r)"
  shows "fst (from_queryset C cls q w) = Inr (map f rs)
       \<and> orm_calls (new_events w (snd (from_queryset C cls q w))) = map (Pair cls) rs"
proof -
  note ok = conv_all_ok [OF assms(4)]
  have run: "from_queryset C cls q w =
     (Inr (map f rs),
      w\<lparr>store := s2, trace := trace w @ [PrefetchRelated q (get_prefetch_fields w cls) (Inr a),
          Await a (Inr v), Iter v (Inr rs)] @ map (\<lambda>m. FromOrm cls m (Inr (f m))) rs\<rparr>)"
    using from_queryset_run [OF assms(1,2,3)] ok by simp
  show ?thesis
    by (simp add: run new_events_def orm_calls_map)
qed

theorem from_queryset_preserves_order_witness:
  "prefetch_related (table_source [3, 1, 2]) (QueryAll []) (get_prefetch_fields shop_world ''Order'')
       (store shop_world) = (Inr (QueryAll [''customer'']), 0)
   \<and> await (table_source [3, 1, 2]) (QueryAll [''customer'']) 0 = (Inr (PyList [Rec 3, Rec 1, Rec 2]), 1)
   \<and> py_iter (table_source [3, 1, 2]) (PyList [Rec 3, Rec 1, Rec 2]) = Inr [Rec 3, Rec 1, Rec 2]
   \<and> fst (from_queryset (table_source [3, 1, 2]) ''Order'' (QueryAll []) shop_world)
       = Inr [Rec 3, Rec 1, Rec 2]
   \<and> orm_calls (new_events shop_world
         (snd (from_queryset (table_source [3, 1, 2]) ''Order'' (QueryAll []) shop_world)))
       = [(''Order'', Rec 3), (''Order'', Rec 1), (''Order'', Rec 2)]"
proof -
  have h1: "prefetch_related (table_source [3, 1, 2]) (QueryAll [])
      (get_prefetch_fields shop_world ''Order'') (store shop_world) = (Inr (QueryAll [''customer'']), 0)"
    by (simp add: source_defs get_prefetch_fields_def)
  have h2: "await (table_source [3, 1, 2]) (QueryAll [''customer'']) 0
      = (Inr (PyList [Rec 3, Rec 1, Rec 2]), 1)"
    by (simp add: source_defs)
  have h3: "py_iter (table_source [3, 1, 2]) (PyList [Rec 3, Rec 1, Rec 2]) = Inr [Rec 3, Rec 1, Rec 2]"
    by (simp add: source_defs)
  have h4: "\<forall>r \<in> set [Rec 3, Rec 1, Rec 2]. from_orm (table_source [3, 1, 2]) ''Order'' r = Inr (id r)"
    by (simp add: source_defs)
  show ?thesis
    using from_queryset_preserves_order [OF h1 h2 h3 h4] h1 h2 h3 h4 by simp
qed

text \<open>
  Claim C5: when the awaited request yields no record, \<^verbatim>\<open>TortoiseSchema.from_queryset\<close>
  returns the empty list, and the converter is not called.
\<close>

theorem from_queryset_no_records:
  assumes "prefetch_related C q (get_prefetch_fields w cls) (store w) = (Inr a, s1)"
    and "await C a s1 = (Inr v, s2)"
    and "py_iter C v = Inr []"
  shows "fst (from_queryset C cls q w) = Inr []
       \<and> orm_calls (new_events w (snd (from_queryset C cls q w))) = []"
  using from_queryset_run [OF assms] by (simp add: new_events_def)

theorem from_queryset_no_records_witness:
  "prefetch_related (table_source []) (QueryAll []) (get_prefetch_fields shop_world ''Order'')
       (store shop_world) = (Inr (QueryAll [''customer'']), 0)
   \<and> await (table_source []) (QueryAll [''customer'']) 0 = (Inr (PyList []), 1)
   \<and> py_iter (table_source []) (PyList []) = Inr []
   \<and> fst (from_queryset (table_source []) ''Order'' (QueryAll []) shop_world) = Inr []"
proof -
  have h1: "prefetch_related (table_source []) (QueryAll [])
      (get_prefetch_fields shop_world ''Order'') (store shop_world) = (Inr (QueryAll [''customer'']), 0)"
    by (simp add: source_defs get_prefetch_fields_def)
  have h2: "await (table_source []) (QueryAll [''customer'']) 0 = (Inr (PyList []), 1)"
    by (simp add: source_defs)
  have h3: "py_iter (table_source []) (PyList []) = Inr []"
    by (simp add: source_defs)
  show ?thesis
    using from_queryset_no_records [OF h1 h2 h3] h1 h2 h3 by simp
qed

text \<open>
  Claim C6: when the awaited request resolves to one record \<open>r\<close>,
  \<^verbatim>\<open>from_queryset_single\<close> returns what the converter makes of \<open>r\<close>, from a single
  converter call on \<open>r\<close>.
\<close>

theorem from_queryset_single_is_from_orm:
  assumes "prefetch_related C q (get_prefetch_fields w cls) (store w) = (Inr a, s1)"
    and "await C a s1 = (Inr r, s2)"
  shows "fst (from_queryset_single C cls q w) = from_orm C cls r
       \<and> orm_calls (new_events w (snd (from_queryset_single C cls q w))) = [(cls, r)]"
  using from_queryset_single_run [OF assms] by (simp add: new_events_def)

theorem from_queryset_single_is_from_orm_witness:
  "prefetch_related (table_source [1, 2, 3]) (QueryGet 2 []) (get_prefetch_fields shop_world ''Order'')
       (store shop_world) = (Inr (QueryGet 2 [''customer'']), 0)
   \<and> await (table_source [1, 2, 3]) (QueryGet 2 [''customer'']) 0 = (Inr (Rec 2), 1)
   \<and> fst (from_queryset_single (table_source [1, 2, 3]) ''Order'' (QueryGet 2 []) shop_world)
       = from_orm (table_source [1, 2, 3]) ''Order'' (Rec 2)
   \<and> from_orm (table_source [1, 2, 3]) ''Order'' (Rec 2) = Inr (Rec 2)"
proof -
  have h1: "prefetch_related (table_source [1, 2, 3]) (QueryGet 2 [])
      (get_prefetch_fields shop_world ''Order'') (store shop_world) = (Inr (QueryGet 2 [''customer'']), 0)"
    by (simp add: source_defs get_prefetch_fields_def)
  have h2: "await (table_source [1, 2, 3]) (QueryGet 2 [''customer'']) 0 = (Inr (Rec 2), 1)"
    by (simp add: source_defs)
  have h3: "from_orm (table_source [1, 2, 3]) ''Order'' (Rec 2) = Inr (Rec 2)"
    by (simp add: source_defs)
  show ?thesis
    using from_queryset_single_is_from_orm [OF h1 h2] h1 h2 h3 by simp
qed

subsection \<open>Failures, number of fetches, and state\<close>

text \<open>
  Claim C7: every failure raised by the object source or the converter during a conversion
  operation reaches the caller unmodified. In each of the four operations, a run that
  returns a value made only calls that returned, and a run that raises \<open>e\<close> ended with a
  collaborator call that raised this \<open>e\<close>, after calls that all returned: no call follows
  a failure, no failure is replaced, and every error of a run is one a collaborator
  raised.
\<close>

theorem failures_propagate_unmodified:
  "propagates (fst (from_tortoise C cls m w)) (new_events w (snd (from_tortoise C cls m w)))
   \<and> propagates (fst (from_queryset C cls q w)) (new_events w (snd (from_queryset C cls q w)))
   \<and> propagates (fst (from_queryset_single C cls q w))
        (new_events w (snd (from_queryset_single C cls q w)))
   \<and> propagates (fst (list_from_queryset C cls q w))
        (new_events w (snd (list_from_queryset C cls q w)))"
  by (simp add: from_tortoise_propagates from_queryset_propagates
      from_queryset_single_propagates list_from_queryset_propagates)

theorem failures_propagate_unmodified_witness:
  "fst (from_queryset_single (table_source [2, 3, 4]) ''Order'' (QueryGet 7 []) shop_world)
     = Inl ''DoesNotExist''
   \<and> propagates (Inl ''DoesNotExist'' :: string + nat pyval)
       [PrefetchRelated (QueryGet 7 []) [''customer''] (Inr (QueryGet 7 [''customer''])),
        Await (QueryGet 7 [''customer'']) (Inl ''DoesNotExist'')
          :: (request, nat pyval, string, string, nat pyval) event]
   \<and> fst (from_queryset (table_source [2, 0, 3]) ''Order'' (QueryAll []) shop_world)
     = Inl ''ValidationError''
   \<and> raised (last (new_events shop_world
        (snd (from_queryset (table_source [2, 0, 3]) ''Order'' (QueryAll []) shop_world))))
     = Some ''ValidationError''"
proof -
  have r1: "from_queryset_single (table_source [2, 3, 4]) ''Order'' (QueryGet 7 []) shop_world =
      (Inl ''DoesNotExist'',
       shop_world\<lparr>store := 1, trace :=
         [PrefetchRelated (QueryGet 7 []) [''customer''] (Inr (QueryGet 7 [''customer''])),
          Await (QueryGet 7 [''customer'']) (Inl ''DoesNotExist'')]\<rparr>)"
    by (simp add: eval_defs)
  have r2: "from_queryset (table_source [2, 0, 3]) ''Order'' (QueryAll []) shop_world =
      (Inl ''ValidationError'',
       shop_world\<lparr>store := 1, trace :=
         [PrefetchRelated (QueryAll []) [''customer''] (Inr (QueryAll [''customer''])),
          Await (QueryAll [''customer'']) (Inr (PyList [Rec 2, Rec 0, Rec 3])),
          Iter (PyList [Rec 2, Rec 0, Rec 3]) (Inr [Rec 2, Rec 0, Rec 3]),
          FromOrm ''Order'' (Rec 2) (Inr (Rec 2)),
          FromOrm ''Order'' (Rec 0) (Inl ''ValidationError'')]\<rparr>)"
    by (simp add: eval_defs)
  have t: "trace shop_world = []"
    by (simp add: shop_world_def)
  show ?thesis
    using failures_propagate_unmodified
      [of "table_source [2, 3, 4]" "''Order''" "Rec 2" shop_world "QueryGet 7 []"]
      failures_propagate_unmodified
      [of "table_source [2, 0, 3]" "''Order''" "Rec 2" shop_world "QueryAll []"]
    by (simp add: r1 r2 new_events_def t err_of_def)
qed

text \<open>
  Claim C8: every call of a conversion operation, of either class, issues exactly one
  augmented fetch. Whatever the collaborators return or raise, the run makes one
  \<^verbatim>\<open>fetch_related\<close> or \<^verbatim>\<open>prefetch_related\<close> call, awaits at most once, and awaits
  exactly what that call returned. When the call returned \<open>a\<close>, the run awaits \<open>a\<close> and
  nothing else: its first two calls are the augmenting call and the await of \<open>a\<close> in the
  store the call left, and the store after the run is the one this await left, so the
  fetch ran against the object source once.
\<close>

theorem one_fetch_per_call:
  "length (fetch_calls (new_events w (snd (from_tortoise C cls m w)))) = 1
   \<and> length (fetch_calls (new_events w (snd (from_queryset C cls q w)))) = 1
   \<and> length (fetch_calls (new_events w (snd (from_queryset_single C cls q w)))) = 1
   \<and> length (fetch_calls (new_events w (snd (list_from_queryset C cls q w)))) = 1
   \<and> length (await_calls (new_events w (snd (from_tortoise C cls m w)))) \<le> 1
   \<and> length (await_calls (new_events w (snd (from_queryset C cls q w)))) \<le> 1
   \<and> length (await_calls (new_events w (snd (from_queryset_single C cls q w)))) \<le> 1
   \<and> length (await_calls (new_events w (snd (list_from_queryset C cls q w)))) \<le> 1
   \<and> await_calls (new_events w (snd (from_tortoise C cls m w)))
       = fetch_returned (new_events w (snd (from_tortoise C cls m w)))
   \<and> await_calls (new_events w (snd (from_queryset C cls q w)))
       = fetch_returned (new_events w (snd (from_queryset C cls q w)))
   \<and> await_calls (new_events w (snd (from_queryset_single C cls q w)))
       = fetch_returned (new_events w (snd (from_queryset_single C cls q w)))
   \<and> await_calls (new_events w (snd (list_from_queryset C cls q w)))
       = fetch_returned (new_events w (snd (list_from_queryset C cls q w)))
   \<and> (fetch_related C m (get_prefetch_fields w cls) (store w) = (Inr a, s1) \<longrightarrow>
        await_calls (new_events w (snd (from_tortoise C cls m w))) = [a]
        \<and> take 2 (new_events w (snd (from_tortoise C cls m w)))
            = [FetchRelated m (get_prefetch_fields w cls) (Inr a), Await a (fst (await C a s1))]
        \<and> store (snd (from_tortoise C cls m w)) = snd (await C a s1))
   \<and> (prefetch_related C q (get_prefetch_fields w cls) (store w) = (Inr b, s2) \<longrightarrow>
        await_calls (new_events w (snd (from_queryset C cls q w))) = [b]
        \<and> take 2 (new_events w (snd (from_queryset C cls q w)))
            = [PrefetchRelated q (get_prefetch_fields w cls) (Inr b), Await b (fst (await C b s2))]
        \<and> store (snd (from_queryset C cls q w)) = snd (await C b s2)
        \<and> await_calls (new_events w (snd (from_queryset_single C cls q w))) = [b]
        \<and> take 2 (new_events w (snd (from_queryset_single C cls q w)))
            = [PrefetchRelated q (get_prefetch_fields w cls) (Inr b), Await b (fst (await C b s2))]
        \<and> store (snd (from_queryset_single C cls q w)) = snd (await C b s2))
   \<and> (prefetch_related C q (list_get_prefetch_fields w cls) (store w) = (Inr b, s2) \<longrightarrow>
        await_calls (new_events w (snd (list_from_queryset C cls q w))) = [b]
        \<and> take 2 (new_events w (snd (list_from_queryset C cls q w)))
            = [PrefetchRelated q (list_get_prefetch_fields w cls) (Inr b),
               Await b (fst (await C b s2))]
        \<and> store (snd (list_from_queryset C cls q w)) = snd (await C b s2))"
proof -
  have counts: "length (fetch_calls (new_events w (snd (from_tortoise C cls m w)))) = 1
     \<and> length (fetch_calls (new_events w (snd (from_queryset C cls q w)))) = 1
     \<and> length (fetch_calls (new_events w (snd (from_queryset_single C cls q w)))) = 1
     \<and> length (fetch_calls (new_events w (snd (list_from_queryset C cls q w)))) = 1
     \<and> length (await_calls (new_events w (snd (from_tortoise C cls m w)))) \<le> 1
     \<and> length (await_calls (new_events w (snd (from_queryset C cls q w)))) \<le> 1
     \<and> length (await_calls (new_events w (snd (from_queryset_single C cls q w)))) \<le> 1
     \<and> length (await_calls (new_events w (snd (list_from_queryset C cls q w)))) \<le> 1"
    using from_tortoise_await_calls [of w C cls m] from_queryset_await_calls [of w C cls q]
      from_queryset_single_await_calls [of w C cls q] list_from_queryset_await_calls [of w C cls q]
    by (simp add: from_tortoise_fetch_calls from_queryset_fetch_calls
        from_queryset_single_fetch_calls list_from_queryset_fetch_calls)
  have awaited: "await_calls (new_events w (snd (from_tortoise C cls m w)))
         = fetch_returned (new_events w (snd (from_tortoise C cls m w)))
     \<and> await_calls (new_events w (snd (from_queryset C cls q w)))
         = fetch_returned (new_events w (snd (from_queryset C cls q w)))
     \<and> await_calls (new_events w (snd (from_queryset_single C cls q w)))
         = fetch_returned (new_events w (snd (from_queryset_single C cls q w)))
     \<and> await_calls (new_events w (snd (list_from_queryset C cls q w)))
         = fetch_returned (new_events w (snd (list_from_queryset C cls q w)))"
    using from_tortoise_awaits_returned [of w C cls m] from_queryset_awaits_returned [of w C cls q]
      from_queryset_single_awaits_returned [of w C cls q]
      list_from_queryset_awaits_returned [of w C cls q]
    by blast
  show ?thesis
    using counts awaited
      from_tortoise_issues [of C m w cls a s1]
      from_queryset_issues [of C q w cls b s2]
      from_queryset_single_issues [of C q w cls b s2]
      list_from_queryset_issues [of C q w cls b s2]
    by blast
qed

theorem one_fetch_per_call_witness:
  "fetch_related (table_source [2, 3, 4]) (Rec 2) (get_prefetch_fields shop_world ''Order'')
       (store shop_world) = (Inr (Refresh 2 [''customer'']), 0)
   \<and> prefetch_related (table_source [2, 3, 4]) (QueryGet 7 [])
       (get_prefetch_fields shop_world ''Order'') (store shop_world)
       = (Inr (QueryGet 7 [''customer'']), 0)
   \<and> prefetch_related (table_source [2, 3, 4]) (QueryGet 7 [])
       (list_get_prefetch_fields shop_world ''Order'') (store shop_world)
       = (Inr (QueryGet 7 [''customer'']), 0)
   \<and> await_calls (new_events shop_world
        (snd (from_tortoise (table_source [2, 3, 4]) ''Order'' (Rec 2) shop_world)))
       = [Refresh 2 [''customer'']]
   \<and> store (snd (from_tortoise (table_source [2, 3, 4]) ''Order'' (Rec 2) shop_world)) = Suc 0
   \<and> await_calls (new_events shop_world
        (snd (from_queryset (table_source [2, 3, 4]) ''Order'' (QueryGet 7 []) shop_world)))
       = [QueryGet 7 [''customer'']]
   \<and> await_calls (new_events shop_world
        (snd (from_queryset_single (table_source [2, 3, 4]) ''Order'' (QueryGet 7 []) shop_world)))
       = [QueryGet 7 [''customer'']]
   \<and> store (snd (from_queryset_single (table_source [2, 3, 4]) ''Order'' (QueryGet 7 [])
        shop_world)) = Suc 0
   \<and> await_calls (new_events shop_world
        (snd (list_from_queryset (table_source [2, 3, 4]) ''Order'' (QueryGet 7 []) shop_world)))
       = [QueryGet 7 [''customer'']]
   \<and> length (fetch_calls (new_events shop_world
        (snd (from_queryset_single (table_source [2, 3, 4]) ''Order'' (QueryGet 7 []) shop_world))))
       = Suc 0"
proof -
  have f: "fetch_related (table_source [2, 3, 4]) (Rec 2) (get_prefetch_fields shop_world ''Order'')
       (store shop_world) = (Inr (Refresh 2 [''customer'']), 0)"
    by (simp add: source_defs get_prefetch_fields_def)
  have p: "prefetch_related (table_source [2, 3, 4]) (QueryGet 7 [])
       (get_prefetch_fields shop_world ''Order'') (store shop_world)
       = (Inr (QueryGet 7 [''customer'']), 0)"
    by (simp add: source_defs get_prefetch_fields_def)
  have l: "prefetch_related (table_source [2, 3, 4]) (QueryGet 7 [])
       (list_get_prefetch_fields shop_world ''Order'') (store shop_world)
       = (Inr (QueryGet 7 [''customer'']), 0)"
    by (simp add: source_defs list_get_prefetch_fields_def)
  have r: "snd (await (table_source [2, 3, 4]) (Refresh 2 [''customer'']) 0) = Suc 0"
    by (simp add: source_defs)
  have g: "snd (await (table_source [2, 3, 4]) (QueryGet 7 [''customer'']) 0) = Suc 0"
    by (simp add: source_defs)
  note run = one_fetch_per_call
      [where w = shop_world and C = "table_source [2, 3, 4]" and cls = "''Order''"
         and m = "Rec 2" and q = "QueryGet 7 []"
         and a = "Refresh 2 [''customer'']" and ?s1.0 = 0
         and b = "QueryGet 7 [''customer'']" and ?s2.0 = 0]
  have t: "await_calls (new_events shop_world
        (snd (from_tortoise (table_source [2, 3, 4]) ''Order'' (Rec 2) shop_world)))
       = [Refresh 2 [''customer'']]
     \<and> store (snd (from_tortoise (table_source [2, 3, 4]) ''Order'' (Rec 2) shop_world))
       = snd (await (table_source [2, 3, 4]) (Refresh 2 [''customer'']) 0)"
    using run f by blast
  have q: "await_calls (new_events shop_world
        (snd (from_queryset (table_source [2, 3, 4]) ''Order'' (QueryGet 7 []) shop_world)))
       = [QueryGet 7 [''customer'']]
     \<and> await_calls (new_events shop_world
        (snd (from_queryset_single (table_source [2, 3, 4]) ''Order'' (QueryGet 7 []) shop_world)))
       = [QueryGet 7 [''customer'']]
     \<and> store (snd (from_queryset_single (table_source [2, 3, 4]) ''Order'' (QueryGet 7 [])
        shop_world)) = snd (await (table_source [2, 3, 4]) (QueryGet 7 [''customer'']) 0)"
    using run p by blast
  have w: "await_calls (new_events shop_world
        (snd (list_from_queryset (table_source [2, 3, 4]) ''Order'' (QueryGet 7 []) shop_world)))
       = [QueryGet 7 [''customer'']]"
    using run l by blast
  have n: "length (fetch_calls (new_events shop_world
        (snd (from_queryset_single (table_source [2, 3, 4]) ''Order'' (QueryGet 7 []) shop_world))))
       = Suc 0"
    using run by simp
  show ?thesis
    using f p l t q w n by (simp add: r g)
qed

text \<open>
  Claim C9: no operation changes state of the adapter. The class configurations after a
  run are those before it, so \<^verbatim>\<open>fetch_fields\<close> is the same sequence before and after;
  and nothing of earlier calls reaches a run: with any other log \<open>t\<close> of earlier calls the
  run returns the same result, leaves the same store and configurations, and logs the
  same calls.
\<close>

theorem operations_keep_configuration:
  "configs (snd (from_tortoise C cls m w)) = configs w
   \<and> configs (snd (from_queryset C cls q w)) = configs w
   \<and> configs (snd (from_queryset_single C cls q w)) = configs w
   \<and> configs (snd (list_from_queryset C cls q w)) = configs w
   \<and> from_tortoise C cls m (w\<lparr>trace := t\<rparr>) =
       (fst (from_tortoise C cls m w),
        (snd (from_tortoise C cls m w))
          \<lparr>trace := t @ new_events w (snd (from_tortoise C cls m w))\<rparr>)
   \<and> from_queryset C cls q (w\<lparr>trace := t\<rparr>) =
       (fst (from_queryset C cls q w),
        (snd (from_queryset C cls q w))
          \<lparr>trace := t @ new_events w (snd (from_queryset C cls q w))\<rparr>)
   \<and> from_queryset_single C cls q (w\<lparr>trace := t\<rparr>) =
       (fst (from_queryset_single C cls q w),
        (snd (from_queryset_single C cls q w))
          \<lparr>trace := t @ new_events w (snd (from_queryset_single C cls q w))\<rparr>)
   \<and> list_from_queryset C cls q (w\<lparr>trace := t\<rparr>) =
       (fst (list_from_queryset C cls q w),
        (snd (list_from_queryset C cls q w))
          \<lparr>trace := t @ new_events w (snd (list_from_queryset C cls q w))\<rparr>)"
  using from_tortoise_frame(2) [of C cls m t w] from_queryset_frame(2) [of C cls q t w]
    from_queryset_single_frame(2) [of C cls q t w] list_from_queryset_frame(2) [of C cls q t w]
  by (simp add: from_tortoise_frame(1) from_queryset_frame(1) from_queryset_single_frame(1)
      list_from_queryset_frame(1))

text \<open>
  Claim C10: once the fetch resolved to a value \<open>v\<close>, \<^verbatim>\<open>TortoiseListSchema.from_queryset\<close>
  calls the converter exactly once, on \<open>v\<close> as a whole, whatever \<open>v\<close> holds; on the same
  request \<^verbatim>\<open>TortoiseSchema.from_queryset\<close> calls it once for each record that \<open>v\<close>
  iterates to.
\<close>

theorem list_schema_converts_whole_result:
  assumes "prefetch_related C q (list_get_prefetch_fields w cls) (store w) = (Inr a, s1)"
    and "await C a s1 = (Inr v, s2)"
  shows "orm_calls (new_events w (snd (list_from_queryset C cls q w))) = [(cls, v)]
       \<and> fst (list_from_queryset C cls q w) = from_orm C cls v
       \<and> (py_iter C v = Inr rs \<and> list_all (\<lambda>r. from_orm C cls r = Inr (f r)) rs \<longrightarrow>
            orm_calls (new_events w (snd (from_queryset C cls q w))) = map (Pair cls) rs)"
proof -
  have same: "list_get_prefetch_fields w cls = get_prefetch_fields w cls"
    by (simp add: list_get_prefetch_fields_def get_prefetch_fields_def)
  have one: "orm_calls (new_events w (snd (list_from_queryset C cls q w))) = [(cls, v)]
       \<and> fst (list_from_queryset C cls q w) = from_orm C cls v"
    using list_from_queryset_run [OF assms] by (simp add: new_events_def)
  have each: "orm_calls (new_events w (snd (from_queryset C cls q w))) = map (Pair cls) rs"
    if it: "py_iter C v = Inr rs" and ok: "list_all (\<lambda>r. from_orm C cls r = Inr (f r)) rs"
  proof -
    have all: "\<forall>r \<in> set rs. from_orm C cls r = Inr (f r)"
      using ok by (simp add: list_all_iff)
    have p: "prefetch_related C q (get_prefetch_fields w cls) (store w) = (Inr a, s1)"
      using assms(1) by (simp add: same)
    show ?thesis
      using from_queryset_run [OF p assms(2) it] conv_all_ok [OF all]
      by (simp add: new_events_def orm_calls_map)
  qed
  show ?thesis using one each by blast
qed

theorem list_schema_converts_whole_result_witness:
  "prefetch_related (table_source [1, 2, 3]) (QueryAll [])
       (list_get_prefetch_fields shop_world ''UserList'') (store shop_world)
     = (Inr (QueryAll [''a'', ''a__b'']), 0)
   \<and> await (table_source [1, 2, 3]) (QueryAll [''a'', ''a__b'']) 0
     = (Inr (PyList [Rec 1, Rec 2, Rec 3]), 1)
   \<and> orm_calls (new_events shop_world
        (snd (list_from_queryset (table_source [1, 2, 3]) ''UserList'' (QueryAll []) shop_world)))
     = [(''UserList'', PyList [Rec 1, Rec 2, Rec 3])]
   \<and> orm_calls (new_events shop_world
        (snd (from_queryset (table_source [1, 2, 3]) ''UserList'' (QueryAll []) shop_world)))
     = [(''UserList'', Rec 1), (''UserList'', Rec 2), (''UserList'', Rec 3)]"
proof -
  have h1: "prefetch_related (table_source [1, 2, 3]) (QueryAll [])
       (list_get_prefetch_fields shop_world ''UserList'') (store shop_world)
     = (Inr (QueryAll [''a'', ''a__b'']), 0)"
    by (simp add: source_defs list_get_prefetch_fields_def)
  have h2: "await (table_source [1, 2, 3]) (QueryAll [''a'', ''a__b'']) 0
     = (Inr (PyList [Rec 1, Rec 2, Rec 3]), 1)"
    by (simp add: source_defs)
  have h3: "py_iter (table_source [1, 2, 3]) (PyList [Rec 1, Rec 2, Rec 3]) = Inr [Rec 1, Rec 2, Rec 3]"
    by (simp add: source_defs)
  have h4: "list_all (\<lambda>r. from_orm (table_source [1, 2, 3]) ''UserList'' r = Inr (id r))
      [Rec 1, Rec 2, Rec 3]"
    by (simp add: source_defs)
  show ?thesis
    using list_schema_converts_whole_result [OF h1 h2, of "[Rec 1, Rec 2, Rec 3]" id] h1 h2 h3 h4
    by simp
qed

end
